theory Spec2Isabelle
  imports Main
begin

section \<open>USDR device support for OpenWebRX+ (usdr.py)\<close>

text \<open>
  The file \<^verbatim>\<open>usdr.py\<close> declares two classes, \<^verbatim>\<open>UsdrSource\<close> and
  \<^verbatim>\<open>UsdrDeviceDescription\<close>, which extend the SoapySDR connector classes of the host
  application. Every method either returns a literal or calls the inherited method through
  \<^verbatim>\<open>super()\<close> and extends its result. The host's classes are not part of the
  repository: what an inherited method returns is a field of the record that stands for
  \<^verbatim>\<open>self\<close>, and every theorem holds for all values of these fields unless it says
  otherwise.
\<close>

subsection \<open>Values of the host's form framework\<close>

text \<open>
  \<^verbatim>\<open>RangeValidator(lo, hi)\<close> and \<^verbatim>\<open>Range(lo, hi)\<close> are constructed by the source
  with two integers. Python integers are unbounded: \<^typ>\<open>int\<close>.
\<close>

datatype validator = RangeValidator int int

datatype range = Range int int

text \<open>
  The classes of the fields the source imports; \<^verbatim>\<open>usdr.py\<close> itself only
  constructs \<^verbatim>\<open>NumberInput\<close>, the inherited fields may be of any class.
\<close>

datatype input_class = Input | TextInput | NumberInput | CheckboxInput | GainInput

text \<open>
  A field descriptor: the two positional arguments (the key and the label) and the keyword
  arguments the source uses. A keyword argument that a call does not pass is \<open>None\<close>.
\<close>

record input =
  cls :: input_class
  key :: string
  label :: string
  infotext :: "string option"
  append_text :: "string option"
  validator :: "validator option"

text \<open>
  The host reads both kinds of bounds as closed intervals; a field without a validator
  accepts every number.
\<close>

fun isInRange :: "range \<Rightarrow> int \<Rightarrow> bool" where
  "isInRange (Range lo hi) n = (lo \<le> n \<and> n \<le> hi)"

fun validate :: "validator option \<Rightarrow> int \<Rightarrow> bool" where
  "validate None n = True"
| "validate (Some (RangeValidator lo hi)) n = isInRange (Range lo hi) n"

subsection \<open>UsdrSource\<close>

text \<open>
  \<^verbatim>\<open>self\<close> of a \<^verbatim>\<open>UsdrSource\<close>, as far as the class reads it: the dict that
  \<^verbatim>\<open>super().getSoapySettingsMappings()\<close> returns. The method updates that dict in place
  (\<^verbatim>\<open>mappings.update\<close>); whether the inherited method builds a new dict at every call or
  hands out one that it keeps is the host's choice, so the record carries both cases:
  with \<open>super_keeps_mappings\<close> the update is seen by every later call.
\<close>

record SoapyConnectorSource =
  super_getSoapySettingsMappings :: "string \<rightharpoonup> string"
  super_keeps_mappings :: bool

definition getDriver :: "SoapyConnectorSource \<Rightarrow> string" where
  "getDriver self = ''usdr''"

definition getSoapySettingsMappings ::
    "SoapyConnectorSource \<Rightarrow> (string \<rightharpoonup> string) \<times> SoapyConnectorSource" where
  "getSoapySettingsMappings self =
     (let mappings = super_getSoapySettingsMappings self;
          mappings = mappings ++
            [''loglevel'' \<mapsto> ''loglevel'', ''rx_bw'' \<mapsto> ''rx_bw'', ''tx_bw'' \<mapsto> ''tx_bw'']
      in (mappings,
          if super_keeps_mappings self
          then self\<lparr>super_getSoapySettingsMappings := mappings\<rparr>
          else self))"

subsection \<open>UsdrDeviceDescription\<close>

text \<open>
  \<^verbatim>\<open>self\<close> of a \<^verbatim>\<open>UsdrDeviceDescription\<close>: the results of the inherited methods.
  The first three are read through \<^verbatim>\<open>super()\<close>; the last three are overridden by
  methods that never call \<^verbatim>\<open>super()\<close>.
\<close>

record SoapyConnectorDeviceDescription =
  super_getInputs :: "input list"
  super_getDeviceOptionalKeys :: "string list"
  super_getProfileOptionalKeys :: "string list"
  super_getSampleRateRanges :: "range list"
  super_getGainStages :: "string list"
  super_hasAgc :: bool

definition getName :: "SoapyConnectorDeviceDescription \<Rightarrow> string" where
  "getName self = ''USDR (Wavelet Lab Micro SDR)''"

definition getInputs :: "SoapyConnectorDeviceDescription \<Rightarrow> input list" where
  "getInputs self = super_getInputs self @ [
     \<lparr>cls = NumberInput,
      key = ''loglevel'',
      label = ''Log level'',
      infotext = Some ''Set the logging verbosity level (0-5, default: 3)'',
      append_text = None,
      validator = Some (RangeValidator 0 5)\<rparr>,
     \<lparr>cls = NumberInput,
      key = ''rx_bw'',
      label = ''RX Bandwidth'',
      infotext = Some ''Set the receive bandwidth filter'',
      append_text = Some ''Hz'',
      validator = None\<rparr>,
     \<lparr>cls = NumberInput,
      key = ''tx_bw'',
      label = ''TX Bandwidth'',
      infotext = Some ''Set the transmit bandwidth filter'',
      append_text = Some ''Hz'',
      validator = None\<rparr>
   ]"

definition getDeviceOptionalKeys :: "SoapyConnectorDeviceDescription \<Rightarrow> string list" where
  "getDeviceOptionalKeys self =
     super_getDeviceOptionalKeys self @ [''loglevel'', ''rx_bw'', ''tx_bw'']"

definition getProfileOptionalKeys :: "SoapyConnectorDeviceDescription \<Rightarrow> string list" where
  "getProfileOptionalKeys self =
     super_getProfileOptionalKeys self @ [''rx_bw'', ''tx_bw'']"

definition getSampleRateRanges :: "SoapyConnectorDeviceDescription \<Rightarrow> range list" where
  "getSampleRateRanges self = [Range 100000 65000000]"

definition getGainStages :: "SoapyConnectorDeviceDescription \<Rightarrow> string list" where
  "getGainStages self = [''LNA'', ''VGA1'', ''VGA2'']"

definition hasAgc :: "SoapyConnectorDeviceDescription \<Rightarrow> bool" where
  "hasAgc self = False"

subsection \<open>Sequences of queries\<close>

text \<open>
  A client holds one object of each class and calls their methods in any order. A call
  returns the method's result and the objects as the call leaves them.
\<close>

datatype query =
    GetDriver | GetSoapySettingsMappings
  | GetName | GetInputs | GetDeviceOptionalKeys | GetProfileOptionalKeys
  | GetSampleRateRanges | GetGainStages | HasAgc

datatype answer =
    Str string
  | Mappings "string \<rightharpoonup> string"
  | Inputs "input list"
  | Keys "string list"
  | Ranges "range list"
  | Flag bool

record objects =
  source :: SoapyConnectorSource
  description :: SoapyConnectorDeviceDescription

fun call :: "query \<Rightarrow> objects \<Rightarrow> answer \<times> objects" where
  "call GetDriver w = (Str (getDriver (source w)), w)"
| "call GetSoapySettingsMappings w =
     (let (m, s) = getSoapySettingsMappings (source w) in (Mappings m, w\<lparr>source := s\<rparr>))"
| "call GetName w = (Str (getName (description w)), w)"
| "call GetInputs w = (Inputs (getInputs (description w)), w)"
| "call GetDeviceOptionalKeys w = (Keys (getDeviceOptionalKeys (description w)), w)"
| "call GetProfileOptionalKeys w = (Keys (getProfileOptionalKeys (description w)), w)"
| "call GetSampleRateRanges w = (Ranges (getSampleRateRanges (description w)), w)"
| "call GetGainStages w = (Keys (getGainStages (description w)), w)"
| "call HasAgc w = (Flag (hasAgc (description w)), w)"

fun calls :: "query list \<Rightarrow> objects \<Rightarrow> objects" where
  "calls [] w = w"
| "calls (q # qs) w = calls qs (snd (call q w))"

subsection \<open>Example objects\<close>

text \<open>
  Inherited results of the kind a SoapySDR connector provides: one gain field, its
  optional keys, and a settings mapping for that field. The theorem below that assumes
  something about the inherited results is instantiated at these objects.
\<close>

definition example_source :: SoapyConnectorSource where
  "example_source =
     \<lparr>super_getSoapySettingsMappings = [''rf_gain'' \<mapsto> ''gain''],
      super_keeps_mappings = False\<rparr>"

definition example_description :: SoapyConnectorDeviceDescription where
  "example_description =
     \<lparr>super_getInputs =
        [\<lparr>cls = GainInput, key = ''rf_gain'', label = ''Device Gain'',
          infotext = None, append_text = None, validator = None\<rparr>],
      super_getDeviceOptionalKeys = [''device'', ''rf_gain'', ''antenna''],
      super_getProfileOptionalKeys = [''antenna''],
      super_getSampleRateRanges = [],
      super_getGainStages = [],
      super_hasAgc = True\<rparr>"

text \<open>
  A base class whose optional-key lists already name keys of this device: the device-level
  list has \<^verbatim>\<open>loglevel\<close> twice and \<^verbatim>\<open>rx_bw\<close> once, the profile-level list has
  \<^verbatim>\<open>loglevel\<close>. Both are lists of strings, as the methods of the base class return.
\<close>

definition colliding_description :: SoapyConnectorDeviceDescription where
  "colliding_description =
     \<lparr>super_getInputs = [],
      super_getDeviceOptionalKeys = [''loglevel'', ''device'', ''rx_bw'', ''loglevel''],
      super_getProfileOptionalKeys = [''antenna'', ''loglevel''],
      super_getSampleRateRanges = [],
      super_getGainStages = [],
      super_hasAgc = True\<rparr>"

section \<open>Properties\<close>

subsection \<open>The driver identifier\<close>

text \<open>
  C1. \<^verbatim>\<open>UsdrSource.getDriver\<close> returns the string \<^verbatim>\<open>usdr\<close> for every object, and
  a client receives that answer after any sequence of earlier queries.
\<close>

theorem getDriver_usdr:
  "getDriver self = ''usdr'' \<and> fst (call GetDriver (calls qs w)) = Str ''usdr''"
  by (simp add: getDriver_def)

subsection \<open>The settings mapping\<close>


subsection \<open>The input fields\<close>

text \<open>
  C2. \<^verbatim>\<open>UsdrDeviceDescription.getInputs\<close> returns the inherited fields followed by
  three number fields with the keys \<^verbatim>\<open>loglevel\<close>, \<^verbatim>\<open>rx_bw\<close>, \<^verbatim>\<open>tx_bw\<close> in this
  order. The first carries the range validator 0 to 5, which accepts exactly the integers
  of the closed interval; the other two carry the suffix \<^verbatim>\<open>Hz\<close> and no validator, so
  every number is accepted.
\<close>

theorem getInputs_fields:
  "getInputs self =
     super_getInputs self @ drop (length (super_getInputs self)) (getInputs self)
   \<and> map key (drop (length (super_getInputs self)) (getInputs self)) =
       [''loglevel'', ''rx_bw'', ''tx_bw'']
   \<and> map cls (drop (length (super_getInputs self)) (getInputs self)) =
       [NumberInput, NumberInput, NumberInput]
   \<and> map validator (drop (length (super_getInputs self)) (getInputs self)) =
       [Some (RangeValidator 0 5), None, None]
   \<and> map append_text (drop (length (super_getInputs self)) (getInputs self)) =
       [None, Some ''Hz'', Some ''Hz'']
   \<and> (\<forall>n. validate (Some (RangeValidator 0 5)) n \<longleftrightarrow> 0 \<le> n \<and> n \<le> 5)
   \<and> (\<forall>n. validate None n)"
  by (simp add: getInputs_def)

subsection \<open>The optional keys\<close>

text \<open>
  Both methods append their literal list to the inherited one. Nothing is filtered and
  nothing is deduplicated, so a key occurs in the result as often as in the inherited
  list, plus its occurrences in the appended literal.
\<close>

lemma getDeviceOptionalKeys_count:
  "count_list (getDeviceOptionalKeys self) k =
     count_list (super_getDeviceOptionalKeys self) k +
     count_list [''loglevel'', ''rx_bw'', ''tx_bw''] k"
  by (simp add: getDeviceOptionalKeys_def)

lemma getProfileOptionalKeys_count:
  "count_list (getProfileOptionalKeys self) k =
     count_list (super_getProfileOptionalKeys self) k +
     count_list [''rx_bw'', ''tx_bw''] k"
  by (simp add: getProfileOptionalKeys_def)

text \<open>
  C4, amended. \<^verbatim>\<open>UsdrDeviceDescription.getDeviceOptionalKeys\<close> returns the inherited
  optional keys, unchanged and in their order, followed by exactly \<^verbatim>\<open>loglevel\<close>,
  \<^verbatim>\<open>rx_bw\<close>, \<^verbatim>\<open>tx_bw\<close>. The result contains every inherited key, its keys are the
  inherited ones and these three, and each of the three occurs in it exactly once more
  than in the inherited list; every key occurs as often as in the inherited list plus
  its occurrences among the three. No assumption on the inherited list is made.
\<close>

theorem getDeviceOptionalKeys_appends:
  "take (length (super_getDeviceOptionalKeys self)) (getDeviceOptionalKeys self) =
     super_getDeviceOptionalKeys self
   \<and> drop (length (super_getDeviceOptionalKeys self)) (getDeviceOptionalKeys self) =
       [''loglevel'', ''rx_bw'', ''tx_bw'']
   \<and> set (super_getDeviceOptionalKeys self) \<subseteq> set (getDeviceOptionalKeys self)
   \<and> set (getDeviceOptionalKeys self) =
       set (super_getDeviceOptionalKeys self) \<union> {''loglevel'', ''rx_bw'', ''tx_bw''}
   \<and> count_list (getDeviceOptionalKeys self) ''loglevel'' =
       count_list (super_getDeviceOptionalKeys self) ''loglevel'' + 1
   \<and> count_list (getDeviceOptionalKeys self) ''rx_bw'' =
       count_list (super_getDeviceOptionalKeys self) ''rx_bw'' + 1
   \<and> count_list (getDeviceOptionalKeys self) ''tx_bw'' =
       count_list (super_getDeviceOptionalKeys self) ''tx_bw'' + 1
   \<and> (\<forall>k. count_list (getDeviceOptionalKeys self) k =
          count_list (super_getDeviceOptionalKeys self) k +
          count_list [''loglevel'', ''rx_bw'', ''tx_bw''] k)"
proof -
  have shape:
    "take (length (super_getDeviceOptionalKeys self)) (getDeviceOptionalKeys self) =
       super_getDeviceOptionalKeys self"
    "drop (length (super_getDeviceOptionalKeys self)) (getDeviceOptionalKeys self) =
       [''loglevel'', ''rx_bw'', ''tx_bw'']"
    by (simp_all add: getDeviceOptionalKeys_def)
  have keys:
    "set (getDeviceOptionalKeys self) =
       set (super_getDeviceOptionalKeys self) \<union> {''loglevel'', ''rx_bw'', ''tx_bw''}"
    by (auto simp: getDeviceOptionalKeys_def)
  then have superset:
    "set (super_getDeviceOptionalKeys self) \<subseteq> set (getDeviceOptionalKeys self)"
    by blast
  have once_more:
    "count_list (getDeviceOptionalKeys self) ''loglevel'' =
       count_list (super_getDeviceOptionalKeys self) ''loglevel'' + 1"
    "count_list (getDeviceOptionalKeys self) ''rx_bw'' =
       count_list (super_getDeviceOptionalKeys self) ''rx_bw'' + 1"
    "count_list (getDeviceOptionalKeys self) ''tx_bw'' =
       count_list (super_getDeviceOptionalKeys self) ''tx_bw'' + 1"
    by (simp_all add: getDeviceOptionalKeys_count)
  from shape keys superset once_more getDeviceOptionalKeys_count show ?thesis
    by blast
qed

text \<open>
  C4 as it is stated (each of the three keys occurs exactly once in the result, and the
  keys the result has beyond the inherited ones are exactly the three) fails on a base
  class that already lists one of the keys: over the inherited list \<^verbatim>\<open>loglevel\<close>,
  \<^verbatim>\<open>device\<close>, \<^verbatim>\<open>rx_bw\<close>, \<^verbatim>\<open>loglevel\<close> the result has \<^verbatim>\<open>loglevel\<close> three
  times and \<^verbatim>\<open>rx_bw\<close> twice, and only \<^verbatim>\<open>tx_bw\<close> is a key beyond the inherited ones.
\<close>

theorem getDeviceOptionalKeys_repeats:
  "getDeviceOptionalKeys colliding_description =
     [''loglevel'', ''device'', ''rx_bw'', ''loglevel'', ''loglevel'', ''rx_bw'', ''tx_bw'']
   \<and> count_list (getDeviceOptionalKeys colliding_description) ''loglevel'' = 3
   \<and> count_list (getDeviceOptionalKeys colliding_description) ''rx_bw'' = 2
   \<and> count_list (getDeviceOptionalKeys colliding_description) ''loglevel'' \<noteq> 1
   \<and> set (getDeviceOptionalKeys colliding_description)
       - set (super_getDeviceOptionalKeys colliding_description) = {''tx_bw''}
   \<and> set (getDeviceOptionalKeys colliding_description)
       - set (super_getDeviceOptionalKeys colliding_description) \<noteq>
       {''loglevel'', ''rx_bw'', ''tx_bw''}"
  by (auto simp: colliding_description_def getDeviceOptionalKeys_def)

text \<open>
  Where the inherited list has none of the three keys, each occurs exactly once in the
  result, as on the example object.
\<close>

lemma getDeviceOptionalKeys_once:
  assumes "k \<in> {''loglevel'', ''rx_bw'', ''tx_bw''}"
    and "k \<notin> set (super_getDeviceOptionalKeys self)"
  shows "count_list (getDeviceOptionalKeys self) k = 1"
  using assms by (auto simp: getDeviceOptionalKeys_count)

lemma getDeviceOptionalKeys_example:
  "getDeviceOptionalKeys example_description =
     [''device'', ''rf_gain'', ''antenna'', ''loglevel'', ''rx_bw'', ''tx_bw'']"
  by (simp add: example_description_def getDeviceOptionalKeys_def)

text \<open>
  C5, amended. \<^verbatim>\<open>UsdrDeviceDescription.getProfileOptionalKeys\<close> returns the inherited
  optional keys, unchanged and in their order, followed by exactly \<^verbatim>\<open>rx_bw\<close> and
  \<^verbatim>\<open>tx_bw\<close>: its keys are the inherited ones and these two. The method adds no
  \<^verbatim>\<open>loglevel\<close>: the appended part has none, and the result has \<^verbatim>\<open>loglevel\<close> exactly
  when, and exactly as often as, the inherited list has it. The device-level list of the
  same object always has it. No assumption on the inherited list is made.
\<close>

theorem getProfileOptionalKeys_appends:
  "take (length (super_getProfileOptionalKeys self)) (getProfileOptionalKeys self) =
     super_getProfileOptionalKeys self
   \<and> drop (length (super_getProfileOptionalKeys self)) (getProfileOptionalKeys self) =
       [''rx_bw'', ''tx_bw'']
   \<and> set (getProfileOptionalKeys self) =
       set (super_getProfileOptionalKeys self) \<union> {''rx_bw'', ''tx_bw''}
   \<and> ''loglevel'' \<notin>
       set (drop (length (super_getProfileOptionalKeys self)) (getProfileOptionalKeys self))
   \<and> (''loglevel'' \<in> set (getProfileOptionalKeys self) \<longleftrightarrow>
        ''loglevel'' \<in> set (super_getProfileOptionalKeys self))
   \<and> count_list (getProfileOptionalKeys self) ''loglevel'' =
       count_list (super_getProfileOptionalKeys self) ''loglevel''
   \<and> ''loglevel'' \<in> set (getDeviceOptionalKeys self)"
proof -
  have shape:
    "take (length (super_getProfileOptionalKeys self)) (getProfileOptionalKeys self) =
       super_getProfileOptionalKeys self"
    "drop (length (super_getProfileOptionalKeys self)) (getProfileOptionalKeys self) =
       [''rx_bw'', ''tx_bw'']"
    by (simp_all add: getProfileOptionalKeys_def)
  have keys:
    "set (getProfileOptionalKeys self) =
       set (super_getProfileOptionalKeys self) \<union> {''rx_bw'', ''tx_bw''}"
    by (auto simp: getProfileOptionalKeys_def)
  have none_added:
    "''loglevel'' \<notin>
       set (drop (length (super_getProfileOptionalKeys self)) (getProfileOptionalKeys self))"
    by (simp add: getProfileOptionalKeys_def)
  have passed_on:
    "''loglevel'' \<in> set (getProfileOptionalKeys self) \<longleftrightarrow>
     ''loglevel'' \<in> set (super_getProfileOptionalKeys self)"
    by (simp add: getProfileOptionalKeys_def)
  have as_often:
    "count_list (getProfileOptionalKeys self) ''loglevel'' =
       count_list (super_getProfileOptionalKeys self) ''loglevel''"
    by (simp add: getProfileOptionalKeys_count)
  have device: "''loglevel'' \<in> set (getDeviceOptionalKeys self)"
    by (simp add: getDeviceOptionalKeys_def)
  from shape keys none_added passed_on as_often device show ?thesis
    by blast
qed

text \<open>
  C5 as it is stated (the result does not contain \<^verbatim>\<open>loglevel\<close>) fails on a base class
  whose profile-level list has \<^verbatim>\<open>loglevel\<close>: over the inherited list \<^verbatim>\<open>antenna\<close>,
  \<^verbatim>\<open>loglevel\<close> the inherited key is passed on and the result contains it.
\<close>

theorem getProfileOptionalKeys_passes_loglevel:
  "getProfileOptionalKeys colliding_description =
     [''antenna'', ''loglevel'', ''rx_bw'', ''tx_bw'']
   \<and> ''loglevel'' \<in> set (getProfileOptionalKeys colliding_description)"
  by (simp add: colliding_description_def getProfileOptionalKeys_def)

text \<open>
  Where the inherited list has no \<^verbatim>\<open>loglevel\<close>, the result has none, as on the example
  object.
\<close>

lemma getProfileOptionalKeys_no_loglevel:
  assumes "''loglevel'' \<notin> set (super_getProfileOptionalKeys self)"
  shows "''loglevel'' \<notin> set (getProfileOptionalKeys self)"
  using assms by (simp add: getProfileOptionalKeys_def)

lemma getProfileOptionalKeys_example:
  "getProfileOptionalKeys example_description = [''antenna'', ''rx_bw'', ''tx_bw'']
   \<and> ''loglevel'' \<notin> set (getProfileOptionalKeys example_description)"
  by (simp add: example_description_def getProfileOptionalKeys_def)

subsection \<open>Sample rates, gain stages, AGC\<close>

text \<open>
  C6. \<^verbatim>\<open>UsdrDeviceDescription.getSampleRateRanges\<close> returns a list of exactly one
  range, from 100000 to 65000000; whatever ranges the base class has, the result is the
  same; a sample rate lies in a returned range exactly when it lies in the closed interval
  between the two bounds.
\<close>

theorem getSampleRateRanges_single:
  "getSampleRateRanges self = [Range 100000 65000000]
   \<and> length (getSampleRateRanges self) = 1
   \<and> getSampleRateRanges (self\<lparr>super_getSampleRateRanges := rs\<rparr>) = getSampleRateRanges self
   \<and> (\<forall>n. list_ex (\<lambda>r. isInRange r n) (getSampleRateRanges self) \<longleftrightarrow>
          100000 \<le> n \<and> n \<le> 65000000)"
  by (simp add: getSampleRateRanges_def)

text \<open>
  C9. \<^verbatim>\<open>UsdrDeviceDescription.getGainStages\<close> returns the list \<^verbatim>\<open>LNA\<close>,
  \<^verbatim>\<open>VGA1\<close>, \<^verbatim>\<open>VGA2\<close> in this order, whatever gain stages the base class has.
\<close>

theorem getGainStages_fixed:
  "getGainStages self = [''LNA'', ''VGA1'', ''VGA2'']
   \<and> getGainStages (self\<lparr>super_getGainStages := gs\<rparr>) = getGainStages self"
  by (simp add: getGainStages_def)

text \<open>
  C10. \<^verbatim>\<open>UsdrDeviceDescription.hasAgc\<close> returns false for every object, whatever the
  base class answers.
\<close>

theorem hasAgc_false:
  "hasAgc self = False \<and> hasAgc (self\<lparr>super_hasAgc := b\<rparr>) = False"
  by (simp add: hasAgc_def)

subsection \<open>Mapping keys and input fields\<close>

text \<open>
  C7. When every key of the inherited settings mapping is the key of an inherited input
  field, every key of the mapping returned by \<^verbatim>\<open>getSoapySettingsMappings\<close> is the key of
  a field returned by \<^verbatim>\<open>getInputs\<close>. The keys the method adds to the inherited mapping
  are keys of the three fields appended by \<^verbatim>\<open>getInputs\<close>, and over an empty inherited
  mapping the keys of the result are exactly the keys of these three fields.
\<close>

theorem mapping_keys_are_fields:
  assumes "dom (super_getSoapySettingsMappings src) \<subseteq> set (map key (super_getInputs dd))"
  shows "dom (fst (getSoapySettingsMappings src)) \<subseteq> set (map key (getInputs dd))
    \<and> dom (fst (getSoapySettingsMappings src)) - dom (super_getSoapySettingsMappings src)
        \<subseteq> set (map key (drop (length (super_getInputs dd)) (getInputs dd)))
    \<and> dom (fst (getSoapySettingsMappings (src\<lparr>super_getSoapySettingsMappings := Map.empty\<rparr>)))
        = set (map key (drop (length (super_getInputs dd)) (getInputs dd)))"
  using assms by (auto simp: getSoapySettingsMappings_def Let_def getInputs_def)

theorem mapping_keys_are_fields_witness:
  "dom (fst (getSoapySettingsMappings example_source))
     \<subseteq> set (map key (getInputs example_description))
   \<and> dom (fst (getSoapySettingsMappings example_source)) =
       {''rf_gain'', ''loglevel'', ''rx_bw'', ''tx_bw''}
   \<and> map key (getInputs example_description) = [''rf_gain'', ''loglevel'', ''rx_bw'', ''tx_bw'']"
  using mapping_keys_are_fields [of example_source example_description]
  by (auto simp: example_source_def example_description_def getSoapySettingsMappings_def
      Let_def getInputs_def)

subsection \<open>Repeated and interleaved queries\<close>

text \<open>
  The only method that changes anything is \<^verbatim>\<open>getSoapySettingsMappings\<close>, which updates
  the inherited dict in place. Updating it a second time with the same three entries
  changes nothing, so the method's result survives its own call.
\<close>

lemma getSoapySettingsMappings_again:
  "fst (getSoapySettingsMappings (snd (getSoapySettingsMappings self))) =
   fst (getSoapySettingsMappings self)"
  by (simp add: getSoapySettingsMappings_def Let_def)

lemma call_description: "description (snd (call q w)) = description w"
  by (cases q) (simp_all add: split_def Let_def)

lemma call_source:
  "fst (getSoapySettingsMappings (source (snd (call q w)))) =
   fst (getSoapySettingsMappings (source w))"
  by (cases q) (simp_all add: split_def Let_def getSoapySettingsMappings_again)

lemma calls_description: "description (calls qs w) = description w"
  by (induction qs arbitrary: w) (simp_all add: call_description)

lemma calls_source:
  "fst (getSoapySettingsMappings (source (calls qs w))) =
   fst (getSoapySettingsMappings (source w))"
  by (induction qs arbitrary: w) (simp_all add: call_source)

text \<open>
  C8. Each of the nine queries of \<^verbatim>\<open>UsdrSource\<close> and \<^verbatim>\<open>UsdrDeviceDescription\<close>
  gives the same answer after any sequence of other queries as it gives at once, and
  the same answer when it is called twice in a row.
\<close>

theorem queries_idempotent:
  "fst (call q (calls qs w)) = fst (call q w)
   \<and> fst (call q (snd (call q w))) = fst (call q w)"
proof -
  have after: "fst (call q (calls ps w)) = fst (call q w)" for ps
    by (cases q)
      (simp_all add: split_def Let_def calls_description calls_source getDriver_def)
  from after [of qs] after [of "[q]"] show ?thesis by simp
qed

end
